theory Spec2Isabelle
  imports Main
begin

section \<open>Python values and exceptions\<close>

text \<open>
  The module \<^verbatim>\<open>profiling/remote/eventlet.py\<close> is Python 2 code. An exception object
  is modelled by the method resolution order of its class (the class itself first, then
  its bases) and a message; \<^verbatim>\<open>isinstance(ex, C)\<close> is membership of \<open>C\<close> in that list.
\<close>

type_synonym cname = string

datatype exc = Exc (exc_mro: "cname list") (exc_msg: string)

datatype pyval =
    PNone
  | PBool bool
  | PInt int
  | PStr string
  | PExc exc
  | PObj nat

text \<open>
  What stands after \<^verbatim>\<open>except\<close>: one exception class, or a tuple whose members are again
  classes or tuples (Python 2 walks nested tuples).
\<close>

datatype errspec = ECls cname | ETup "errspec list"

fun exc_matches :: "errspec \<Rightarrow> exc \<Rightarrow> bool"
  and exc_matches_any :: "errspec list \<Rightarrow> exc \<Rightarrow> bool" where
  "exc_matches (ECls c) ex = (c \<in> set (exc_mro ex))"
| "exc_matches (ETup ss) ex = exc_matches_any ss ex"
| "exc_matches_any [] ex = False"
| "exc_matches_any (s # ss) ex = (exc_matches s ex \<or> exc_matches_any ss ex)"

text \<open>
  A callable: positional arguments, keyword arguments and the state of the world go in;
  a returned value or a raised exception comes out, with the new state of the world.
  \<open>py_str\<close> and \<open>py_repr\<close> are what \<^verbatim>\<open>str(f)\<close> and \<^verbatim>\<open>repr(f)\<close> give.
\<close>

type_synonym kwargs = "(string \<times> pyval) list"

record 'w pyfunc =
  py_call :: "pyval list \<Rightarrow> kwargs \<Rightarrow> 'w \<Rightarrow> (exc + pyval) \<times> 'w"
  py_str :: "exc + string"
  py_repr :: "exc + string"

section \<open>wrap\_errors\<close>

text \<open>
  \<^verbatim>\<open>
  class wrap_errors(object):
      def __init__(self, errors, func):
          self.errors = errors
          self.func = func

      def __call__(self, *args, **kwargs):
          func = self.func
          try:
              return func(*args, **kwargs)
          except self.errors, ex:
              return ex

      def __str__(self):
          return str(self.func)

      def __repr__(self):
          return repr(self.func)
  \<close>
\<close>

record 'w wrap_errors =
  errors :: errspec
  func :: "'w pyfunc"

definition wrap_errors_init :: "errspec \<Rightarrow> 'w pyfunc \<Rightarrow> 'w wrap_errors" where
  "wrap_errors_init es f = \<lparr>errors = es, func = f\<rparr>"

definition wrap_errors_call ::
  "'w wrap_errors \<Rightarrow> pyval list \<Rightarrow> kwargs \<Rightarrow> 'w \<Rightarrow> (exc + pyval) \<times> 'w" where
  "wrap_errors_call self args kw w =
     (case py_call (func self) args kw w of
        (Inr r, w') \<Rightarrow> (Inr r, w')
      | (Inl ex, w') \<Rightarrow>
          if exc_matches (errors self) ex then (Inr (PExc ex), w') else (Inl ex, w'))"

definition wrap_errors_str :: "'w wrap_errors \<Rightarrow> exc + string" where
  "wrap_errors_str self = py_str (func self)"

definition wrap_errors_repr :: "'w wrap_errors \<Rightarrow> exc + string" where
  "wrap_errors_repr self = py_repr (func self)"

text \<open>Concrete exceptions and a concrete function, to run the wrapper on.\<close>

definition socket_error_mro :: "cname list" where
  "socket_error_mro =
     [''socket.error'', ''IOError'', ''EnvironmentError'', ''StandardError'',
      ''Exception'', ''BaseException'', ''object'']"

definition conn_reset :: exc where
  "conn_reset = Exc socket_error_mro ''Connection reset by peer''"

definition key_error :: exc where
  "key_error =
     Exc [''KeyError'', ''LookupError'', ''StandardError'', ''Exception'',
          ''BaseException'', ''object''] ''k''"

text \<open>
  \<open>probe_fn\<close> counts its calls in the world (a \<open>nat\<close>) and returns its first argument
  when that is an integer, raises \<open>conn_reset\<close> on a string and \<open>key_error\<close> otherwise.
\<close>

definition probe_fn :: "nat pyfunc" where
  "probe_fn =
     \<lparr>py_call = (\<lambda>args kw w.
         (case args of
            [PInt n] \<Rightarrow> Inr (PInt n)
          | [PStr s] \<Rightarrow> Inl conn_reset
          | _ \<Rightarrow> Inl key_error, Suc w)),
      py_str = Inr ''<function probe>'',
      py_repr = Inr ''<function probe at 0x1>''\<rparr>"


section \<open>The module's names\<close>

text \<open>
  The names bound at module level when the module has been imported, in the order of
  the statements that bind them:
  \<^verbatim>\<open>
  from __future__ import absolute_import
  import socket
  import eventlet
  from eventlet.semaphore import Semaphore
  from . import INTERVAL, LOG, PICKLE_PROTOCOL, ProfilingServer
  __all__ = ['EventletProfilingServer']
  class StreamServer(object): ...
  class wrap_errors(object): ...
  class EventletProfilingServer(StreamServer, ProfilingServer): ...
  \<close>
  A name used in a function body that is neither local nor bound in an enclosing
  function is looked up here and then among the builtins, when the body runs; a name
  found in neither raises NameError. \<open>py_builtins\<close> lists the builtins the module refers
  to.
\<close>

definition module_globals :: "string list" where
  "module_globals =
     [''absolute_import'', ''socket'', ''eventlet'', ''Semaphore'', ''INTERVAL'', ''LOG'',
      ''PICKLE_PROTOCOL'', ''ProfilingServer'', ''__all__'', ''StreamServer'',
      ''wrap_errors'', ''EventletProfilingServer'']"

definition py_builtins :: "string list" where
  "py_builtins = [''object'', ''str'', ''repr'', ''getattr'', ''None'', ''True'']"

definition name_error :: "string \<Rightarrow> exc" where
  "name_error n =
     Exc [''NameError'', ''StandardError'', ''Exception'', ''BaseException'', ''object''] n"

definition assertion_error :: exc where
  "assertion_error =
     Exc [''AssertionError'', ''StandardError'', ''Exception'', ''BaseException'',
          ''object''] []"

definition type_error :: exc where
  "type_error =
     Exc [''TypeError'', ''StandardError'', ''Exception'', ''BaseException'', ''object''] []"

definition load_global :: "string \<Rightarrow> exc + string" where
  "load_global n =
     (if n \<in> set module_globals \<or> n \<in> set py_builtins then Inr n
      else Inl (name_error n))"

section \<open>The world outside: transport and event log\<close>

text \<open>
  Sockets are numbered. The world holds what the collaborators will answer
  (\<^verbatim>\<open>eventlet.listen\<close>, \<^verbatim>\<open>accept\<close>, \<^verbatim>\<open>ssl.wrap_socket\<close>, \<^verbatim>\<open>recv\<close>) and a log of the
  calls made to them, in order.
\<close>

type_synonym sock = nat
type_synonym address = "string \<times> int"

datatype family = AF_INET | AF_INET6

datatype event =
    EvListen address family
  | EvAccept sock
  | EvWrapSocket sock kwargs
  | EvSpawn sock address
  | EvRecv sock int
  | EvDisconnected sock
  | EvHandled sock address

record world =
  w_listen :: "address \<Rightarrow> family \<Rightarrow> exc + sock"
  w_accept :: "nat \<Rightarrow> exc + (sock \<times> address)"
  w_accepted :: nat
  w_wrap :: "sock \<Rightarrow> kwargs \<Rightarrow> exc + sock"
  w_recv :: "sock \<Rightarrow> exc + string"
  w_log :: "event list"

definition emit :: "event \<Rightarrow> world \<Rightarrow> world" where
  "emit ev w = w\<lparr>w_log := w_log w @ [ev]\<rparr>"

text \<open>
  \<^verbatim>\<open>eventlet.listen(addr, family=socket.AF_INET, backlog=50)\<close>: the family defaults to
  \<^verbatim>\<open>AF_INET\<close>.
\<close>

definition eventlet_listen :: "address \<Rightarrow> family option \<Rightarrow> world \<Rightarrow> (exc + sock) \<times> world" where
  "eventlet_listen addr fam w =
     (let f = (case fam of None \<Rightarrow> AF_INET | Some g \<Rightarrow> g)
      in (w_listen w addr f, emit (EvListen addr f) w))"

definition socket_accept :: "sock \<Rightarrow> world \<Rightarrow> (exc + (sock \<times> address)) \<times> world" where
  "socket_accept srv w =
     (w_accept w (w_accepted w), emit (EvAccept srv) (w\<lparr>w_accepted := Suc (w_accepted w)\<rparr>))"

definition ssl_wrap_socket :: "sock \<Rightarrow> kwargs \<Rightarrow> world \<Rightarrow> (exc + sock) \<times> world" where
  "ssl_wrap_socket s kw w = (w_wrap w s kw, emit (EvWrapSocket s kw) w)"

text \<open>\<^verbatim>\<open>d.setdefault(k, v)\<close> on a dictionary kept as an association list.\<close>

definition setdefault :: "kwargs \<Rightarrow> string \<Rightarrow> pyval \<Rightarrow> kwargs" where
  "setdefault kw k v = (if k \<in> fst ` set kw then kw else kw @ [(k, v)])"

section \<open>StreamServer\<close>

text \<open>
  \<^verbatim>\<open>
  class StreamServer(object):
      def __init__(self, listen_info, handle=None, backlog=None,
                   spawn='default', **ssl_args):
          assert backlog is None
          assert spawn == 'default'

          if ':' in listen_info[0]:
              self.server = eventlet.listen(listen_info,
                                            family=socket.AF_INET6)
          else:
              self.server = eventlet.listen(listen_info)

          if ssl_args:
              def wrap_and_handle(sock, addr):
                  ssl_args.setdefault('server_side', True)
                  handle(ssl.wrap_socket(sock, **ssl_args), addr)

              self.handle = wrap_and_handle
          else:
              self.handle = handle

      def serve_forever(self):
          while True:
              sock, addr = self.server.accept()
              spawn(self.handle, sock, addr)
  \<close>
  The \<^verbatim>\<open>handle\<close> argument is a callable or \<^verbatim>\<open>None\<close>. The attribute \<^verbatim>\<open>self.handle\<close> is
  either that argument or the closure \<^verbatim>\<open>wrap_and_handle\<close>, which owns the dictionary
  \<^verbatim>\<open>ssl_args\<close> and the argument.
\<close>

type_synonym hfun = "sock \<Rightarrow> address \<Rightarrow> world \<Rightarrow> (exc + pyval) \<times> world"

datatype handler = Direct "hfun option" | WrapAndHandle kwargs "hfun option"

record stream_server =
  server :: sock
  handle :: handler

definition StreamServer_init ::
  "address \<Rightarrow> hfun option \<Rightarrow> pyval \<Rightarrow> pyval \<Rightarrow> kwargs \<Rightarrow> world
     \<Rightarrow> (exc + stream_server) \<times> world" where
  "StreamServer_init listen_info h backlog spawn ssl_args w =
     (if backlog \<noteq> PNone then (Inl assertion_error, w)
      else if spawn \<noteq> PStr ''default'' then (Inl assertion_error, w)
      else
        (case (if CHR '':'' \<in> set (fst listen_info)
               then eventlet_listen listen_info (Some AF_INET6) w
               else eventlet_listen listen_info None w) of
           (Inl e, w1) \<Rightarrow> (Inl e, w1)
         | (Inr s, w1) \<Rightarrow>
             (Inr \<lparr>server = s,
                   handle = (if ssl_args \<noteq> [] then WrapAndHandle ssl_args h else Direct h)\<rparr>,
              w1)))"

text \<open>Calling the \<^verbatim>\<open>handle\<close> argument: \<^verbatim>\<open>None\<close> is not callable.\<close>

fun call_handle :: "hfun option \<Rightarrow> sock \<Rightarrow> address \<Rightarrow> world \<Rightarrow> (exc + pyval) \<times> world" where
  "call_handle None s a w = (Inl type_error, w)"
| "call_handle (Some h) s a w = h s a w"

text \<open>
  The closure \<^verbatim>\<open>wrap_and_handle\<close>. The call \<^verbatim>\<open>handle(ssl.wrap_socket(sock, **ssl_args), addr)\<close>
  loads \<^verbatim>\<open>handle\<close> from the closure, then looks the name \<^verbatim>\<open>ssl\<close> up among the module's
  names to evaluate the first argument. The result comes with the dictionary as the
  closure leaves it.
\<close>

definition wrap_and_handle ::
  "kwargs \<Rightarrow> hfun option \<Rightarrow> sock \<Rightarrow> address \<Rightarrow> world \<Rightarrow> ((exc + pyval) \<times> kwargs) \<times> world" where
  "wrap_and_handle ssl_args h s addr w =
     (let ssl_args' = setdefault ssl_args ''server_side'' (PBool True)
      in case load_global ''ssl'' of
           Inl e \<Rightarrow> ((Inl e, ssl_args'), w)
         | Inr _ \<Rightarrow>
             (case ssl_wrap_socket s ssl_args' w of
                (Inl e, w1) \<Rightarrow> ((Inl e, ssl_args'), w1)
              | (Inr s', w1) \<Rightarrow>
                  (case call_handle h s' addr w1 of
                     (Inl e, w2) \<Rightarrow> ((Inl e, ssl_args'), w2)
                   | (Inr _, w2) \<Rightarrow> ((Inr PNone, ssl_args'), w2))))"

text \<open>Calling \<^verbatim>\<open>self.handle(sock, addr)\<close>; the attribute comes back as the call left it.\<close>

fun call_self_handle ::
  "handler \<Rightarrow> sock \<Rightarrow> address \<Rightarrow> world \<Rightarrow> ((exc + pyval) \<times> handler) \<times> world" where
  "call_self_handle (Direct h) s a w =
     (case call_handle h s a w of (r, w1) \<Rightarrow> ((r, Direct h), w1))"
| "call_self_handle (WrapAndHandle kw h) s a w =
     (case wrap_and_handle kw h s a w of ((r, kw'), w1) \<Rightarrow> ((r, WrapAndHandle kw' h), w1))"

text \<open>
  \<^verbatim>\<open>serve_forever\<close> has no exit but an exception. The fuel bounds the number of
  iterations looked at: \<open>None\<close> says the loop is still running after that many, and
  \<open>Some (e, w)\<close> that exception \<open>e\<close> left it in world \<open>w\<close>. The name \<^verbatim>\<open>spawn\<close> in the body is
  not a local of \<^verbatim>\<open>serve_forever\<close> (it is a parameter of \<^verbatim>\<open>__init__\<close> only), so it is
  looked up among the module's names; were it bound, the call would be logged as
  \<open>EvSpawn\<close>.
\<close>

fun serve_forever :: "nat \<Rightarrow> stream_server \<Rightarrow> world \<Rightarrow> (exc \<times> world) option" where
  "serve_forever 0 self w = None"
| "serve_forever (Suc n) self w =
     (case socket_accept (server self) w of
        (Inl e, w1) \<Rightarrow> Some (e, w1)
      | (Inr (s, addr), w1) \<Rightarrow>
          (case load_global ''spawn'' of
             Inl e \<Rightarrow> Some (e, w1)
           | Inr _ \<Rightarrow> serve_forever n self (emit (EvSpawn s addr) w1)))"

text \<open>A concrete world and handler: one client connects, then the listener fails.\<close>

definition log_handle :: hfun where
  "log_handle s a w = (Inr PNone, emit (EvHandled s a) w)"

definition world0 :: world where
  "world0 =
     \<lparr>w_listen = (\<lambda>a f. Inr 3),
      w_accept = (\<lambda>n. if n = 0 then Inr (7, (''10.0.0.2'', 50000)) else Inl conn_reset),
      w_accepted = 0,
      w_wrap = (\<lambda>s kw. Inr (s + 100)),
      w_recv = (\<lambda>s. Inr []),
      w_log = []\<rparr>"

definition plain_server :: stream_server where
  "plain_server = \<lparr>server = 3, handle = Direct (Some log_handle)\<rparr>"

definition tls_args :: kwargs where
  "tls_args = [(''certfile'', PStr ''server.pem'')]"

section \<open>The semaphore\<close>

text \<open>
  \<^verbatim>\<open>eventlet.semaphore.Semaphore(value=1)\<close> is a counter. \<^verbatim>\<open>acquire()\<close> takes one unit
  when the counter is positive and blocks the calling green thread otherwise (\<open>None\<close>:
  the caller cannot go on now); \<^verbatim>\<open>release()\<close> gives one unit back. Entering a
  \<^verbatim>\<open>with\<close> block on a semaphore calls \<^verbatim>\<open>acquire()\<close>, leaving it (by its end or by an
  exception) calls \<^verbatim>\<open>release()\<close> and lets an exception pass.
\<close>

record semaphore =
  counter :: nat

definition Semaphore :: "nat option \<Rightarrow> semaphore" where
  "Semaphore v = \<lparr>counter = (case v of None \<Rightarrow> 1 | Some n \<Rightarrow> n)\<rparr>"

definition sem_acquire :: "semaphore \<Rightarrow> semaphore option" where
  "sem_acquire l = (if 0 < counter l then Some (l\<lparr>counter := counter l - 1\<rparr>) else None)"

definition sem_release :: "semaphore \<Rightarrow> semaphore" where
  "sem_release l = l\<lparr>counter := Suc (counter l)\<rparr>"

section \<open>Sampling sessions\<close>

text \<open>
  \<^verbatim>\<open>
  def _start_profiling(self):
      eventlet.spawn(self.profile_periodically)

  def profile_periodically(self):
      with self.lock:
          for __ in self.profiling():
              eventlet.sleep(self.interval)
  \<close>
  \<^verbatim>\<open>self.profiling()\<close> is a generator of the base class \<^verbatim>\<open>ProfilingServer\<close>, which is
  not part of this module: it is a parameter here. \<open>gen_next k\<close> is what the \<open>k\<close>-th
  request for its next item does (yield an item, stop, or raise); \<open>sleep_res k\<close> is what
  the \<open>k\<close>-th \<^verbatim>\<open>eventlet.sleep\<close> does (return, or raise in the sleeping green thread).
\<close>

datatype gen_out = GYield | GStop | GRaise exc

record behaviour =
  gen_next :: "nat \<Rightarrow> gen_out"
  sleep_res :: "nat \<Rightarrow> exc option"

text \<open>
  Where one run of \<^verbatim>\<open>profile_periodically\<close> stands: before the \<^verbatim>\<open>with\<close> statement; in
  the loop about to ask the generator for item \<open>k\<close>; in the loop body, sleeping after
  item \<open>k\<close>; or returned (\<open>None\<close>) or left by an exception.
\<close>

datatype pc = Entering | AtNext nat | Sleeping nat | Exited "exc option"

fun in_loop :: "pc \<Rightarrow> bool" where
  "in_loop (AtNext k) = True"
| "in_loop (Sleeping k) = True"
| "in_loop Entering = False"
| "in_loop (Exited r) = False"

text \<open>
  One step of a session, up to the next point where the green thread may be switched
  out. \<open>None\<close>: the session cannot move (blocked on the semaphore, or over).
\<close>

fun session_step :: "behaviour \<Rightarrow> semaphore \<Rightarrow> pc \<Rightarrow> (semaphore \<times> pc) option" where
  "session_step b l Entering =
     (case sem_acquire l of None \<Rightarrow> None | Some l' \<Rightarrow> Some (l', AtNext 0))"
| "session_step b l (AtNext k) =
     (case gen_next b k of
        GYield \<Rightarrow> Some (l, Sleeping k)
      | GStop \<Rightarrow> Some (sem_release l, Exited None)
      | GRaise e \<Rightarrow> Some (sem_release l, Exited (Some e)))"
| "session_step b l (Sleeping k) =
     (case sleep_res b k of
        None \<Rightarrow> Some (l, AtNext (Suc k))
      | Some e \<Rightarrow> Some (sem_release l, Exited (Some e)))"
| "session_step b l (Exited r) = None"

text \<open>
  A session run on its own, for at most the given number of steps: \<open>Some (r, l)\<close> when it
  is over with result \<open>r\<close> and the semaphore is \<open>l\<close>; \<open>None\<close> when it is blocked or still
  running.
\<close>

fun session_run :: "nat \<Rightarrow> behaviour \<Rightarrow> semaphore \<Rightarrow> pc \<Rightarrow> (exc option \<times> semaphore) option" where
  "session_run n b l (Exited r) = Some (r, l)"
| "session_run 0 b l p = None"
| "session_run (Suc n) b l p =
     (case session_step b l p of
        None \<Rightarrow> None
      | Some (l', p') \<Rightarrow> session_run n b l' p')"

definition profile_periodically ::
  "nat \<Rightarrow> behaviour \<Rightarrow> semaphore \<Rightarrow> (exc option \<times> semaphore) option" where
  "profile_periodically n b l = session_run n b l Entering"

section \<open>EventletProfilingServer\<close>

text \<open>
  \<^verbatim>\<open>
  def __init__(self, listener, profiler=None, interval=INTERVAL,
               log=LOG, pickle_protocol=PICKLE_PROTOCOL, **server_kwargs):
      StreamServer.__init__(self, listener, **server_kwargs)
      ProfilingServer.__init__(self, profiler, interval,
                               log, pickle_protocol)
      self.lock = Semaphore()
  \<close>
  The server is the stream server, the semaphore and the sessions spawned so far, each
  with its generator's behaviour. The fields set by \<^verbatim>\<open>ProfilingServer.__init__\<close> are
  not read by this module and are left out.
\<close>

record eps =
  stream :: stream_server
  lock :: semaphore
  sessions :: "(behaviour \<times> pc) list"

definition EventletProfilingServer_init ::
  "address \<Rightarrow> hfun option \<Rightarrow> pyval \<Rightarrow> pyval \<Rightarrow> kwargs \<Rightarrow> world \<Rightarrow> (exc + eps) \<times> world" where
  "EventletProfilingServer_init listener h backlog spawn ssl_args w =
     (case StreamServer_init listener h backlog spawn ssl_args w of
        (Inl e, w1) \<Rightarrow> (Inl e, w1)
      | (Inr ss, w1) \<Rightarrow> (Inr \<lparr>stream = ss, lock = Semaphore None, sessions = []\<rparr>, w1))"

definition start_profiling :: "behaviour \<Rightarrow> eps \<Rightarrow> eps" where
  "start_profiling b s = s\<lparr>sessions := sessions s @ [(b, Entering)]\<rparr>"

text \<open>
  The green threads are scheduled cooperatively: at each point one of two things
  happens. A session is started (\<^verbatim>\<open>_start_profiling\<close>, whenever and however often the
  rest of the server asks for it), or the scheduler resumes session \<open>i\<close>, which then makes
  one step; resuming a session that cannot move changes nothing. A schedule is a list of
  such events, and every interleaving is some schedule.
\<close>

datatype sched = StartProfiling behaviour | Resume nat

fun eps_step :: "eps \<Rightarrow> sched \<Rightarrow> eps" where
  "eps_step s (StartProfiling b) = start_profiling b s"
| "eps_step s (Resume i) =
     (if i < length (sessions s) then
        (case sessions s ! i of
           (b, p) \<Rightarrow>
             (case session_step b (lock s) p of
                None \<Rightarrow> s
              | Some (l', p') \<Rightarrow> s\<lparr>lock := l', sessions := (sessions s)[i := (b, p')]\<rparr>))
      else s)"

fun eps_run :: "eps \<Rightarrow> sched list \<Rightarrow> eps" where
  "eps_run s [] = s"
| "eps_run s (e # es) = eps_run (eps_step s e) es"

definition active_sessions :: "eps \<Rightarrow> nat" where
  "active_sessions s = length (filter (\<lambda>x. in_loop (snd x)) (sessions s))"

text \<open>
  Concrete behaviours: a generator that yields twice and stops, one that yields once and
  then raises, and one that never stops.
\<close>

definition profiler_gone :: exc where
  "profiler_gone =
     Exc [''RuntimeError'', ''StandardError'', ''Exception'', ''BaseException'', ''object'']
       ''profiler unusable''"

definition two_samples :: behaviour where
  "two_samples = \<lparr>gen_next = (\<lambda>k. if k < 2 then GYield else GStop), sleep_res = (\<lambda>k. None)\<rparr>"

definition failing_sampler :: behaviour where
  "failing_sampler =
     \<lparr>gen_next = (\<lambda>k. if k < 1 then GYield else GRaise profiler_gone),
      sleep_res = (\<lambda>k. None)\<rparr>"

definition endless :: behaviour where
  "endless = \<lparr>gen_next = (\<lambda>k. GYield), sleep_res = (\<lambda>k. None)\<rparr>"

section \<open>The disconnection watcher\<close>

text \<open>
  \<^verbatim>\<open>
  def _start_watching(self, sock):
      disconnected = lambda x: self.disconnected(sock)
      recv = wrap_errors(socket.error, sock.recv)
      eventlet.spawn(recv, 1).link(disconnected)
  \<close>
  \<^verbatim>\<open>sock.recv(n)\<close> returns at most \<open>n\<close> bytes of what the peer sent (none when the peer
  closed) or raises. \<^verbatim>\<open>eventlet.spawn(f, *args)\<close> makes a green thread that will call
  \<open>f\<close> with \<open>args\<close>; \<^verbatim>\<open>link(cb)\<close> adds a callback to it. When the green thread runs
  (\<^verbatim>\<open>GreenThread.main\<close>), it calls the function and then the linked callbacks in order,
  whether the function returned or raised; an exception is raised again after them.
  \<^verbatim>\<open>self.disconnected\<close> belongs to \<^verbatim>\<open>ProfilingServer\<close>, outside this module: a call to
  it is logged as \<open>EvDisconnected\<close>.
\<close>

definition sock_recv :: "sock \<Rightarrow> world pyfunc" where
  "sock_recv s =
     \<lparr>py_call = (\<lambda>args kw w.
         (case args of
            [PInt n] \<Rightarrow>
              (case w_recv w s of
                 Inl e \<Rightarrow> (Inl e, emit (EvRecv s n) w)
               | Inr bs \<Rightarrow> (Inr (PStr (take (nat n) bs)), emit (EvRecv s n) w))
          | _ \<Rightarrow> (Inl type_error, w))),
      py_str = Inr ''<bound method socket.recv>'',
      py_repr = Inr ''<bound method socket.recv>''\<rparr>"

datatype callback = DisconnectedCb sock

record greenthread =
  gt_func :: "world wrap_errors"
  gt_args :: "pyval list"
  gt_links :: "callback list"

definition eventlet_spawn :: "world wrap_errors \<Rightarrow> pyval list \<Rightarrow> greenthread" where
  "eventlet_spawn f args = \<lparr>gt_func = f, gt_args = args, gt_links = []\<rparr>"

definition gt_link :: "greenthread \<Rightarrow> callback \<Rightarrow> greenthread" where
  "gt_link gt cb = gt\<lparr>gt_links := gt_links gt @ [cb]\<rparr>"

fun call_callback :: "callback \<Rightarrow> world \<Rightarrow> world" where
  "call_callback (DisconnectedCb s) w = emit (EvDisconnected s) w"

definition gt_main :: "greenthread \<Rightarrow> world \<Rightarrow> (exc + pyval) \<times> world" where
  "gt_main gt w =
     (case wrap_errors_call (gt_func gt) (gt_args gt) [] w of
        (r, w1) \<Rightarrow> (r, fold call_callback (gt_links gt) w1))"

definition start_watching :: "sock \<Rightarrow> greenthread" where
  "start_watching s =
     gt_link (eventlet_spawn (wrap_errors_init (ECls ''socket.error'') (sock_recv s)) [PInt 1])
       (DisconnectedCb s)"

text \<open>A world in which client 7 has been reset by its peer and client 8 sends data.\<close>

definition world1 :: world where
  "world1 = world0\<lparr>w_recv := (\<lambda>s. if s = 7 then Inl conn_reset
                                  else if s = 8 then Inr ''GET'' else Inr [])\<rparr>"

definition tls_server :: stream_server where
  "tls_server = \<lparr>server = 3, handle = WrapAndHandle tls_args (Some log_handle)\<rparr>"

text \<open>
  A server as constructed on \<open>world0\<close>, and a schedule in which two sessions are started
  and the second is resumed while the first is in its loop.
\<close>

definition eps0 :: eps where
  "eps0 = \<lparr>stream = plain_server, lock = Semaphore None, sessions = []\<rparr>"

definition contended :: "sched list" where
  "contended = [StartProfiling endless, StartProfiling two_samples, Resume 0, Resume 1, Resume 0]"

section \<open>Properties of wrap\_errors\<close>

lemma exc_matches_socket_error: "exc_matches (ECls ''socket.error'') conn_reset"
  by (simp add: conn_reset_def socket_error_mro_def)

lemma exc_matches_tuple:
  "exc_matches (ETup [ECls ''ValueError'', ETup [ECls ''IOError'']]) conn_reset"
  by (simp add: conn_reset_def socket_error_mro_def)

lemma exc_matches_key_error: "\<not> exc_matches (ECls ''socket.error'') key_error"
  by (simp add: key_error_def)

text \<open>
  C2. Calling \<^verbatim>\<open>wrap_errors(E, f)\<close> with any arguments returns what \<open>f\<close> returns when
  \<open>f\<close> returns normally, and returns the exception object as an ordinary value when \<open>f\<close>
  raises an exception that belongs to \<open>E\<close>. The world is left as \<open>f\<close> left it.
\<close>

theorem wrap_errors_contains:
  "(py_call f args kw w = (Inr r, w') \<longrightarrow>
      wrap_errors_call (wrap_errors_init E f) args kw w = (Inr r, w')) \<and>
   (py_call f args kw w = (Inl ex, w') \<and> exc_matches E ex \<longrightarrow>
      wrap_errors_call (wrap_errors_init E f) args kw w = (Inr (PExc ex), w'))"
  by (simp add: wrap_errors_call_def wrap_errors_init_def)

theorem wrap_errors_contains_witness:
  "py_call probe_fn [PInt 5] [] 0 = (Inr (PInt 5), 1) \<and>
   wrap_errors_call (wrap_errors_init (ECls ''socket.error'') probe_fn) [PInt 5] [] 0
     = (Inr (PInt 5), 1) \<and>
   py_call probe_fn [PStr ''x''] [] 0 = (Inl conn_reset, 1) \<and>
   exc_matches (ECls ''socket.error'') conn_reset \<and>
   wrap_errors_call (wrap_errors_init (ECls ''socket.error'') probe_fn) [PStr ''x''] [] 0
     = (Inr (PExc conn_reset), 1)"
proof -
  have ret: "py_call probe_fn [PInt 5] [] 0 = (Inr (PInt 5), 1)"
    by (simp add: probe_fn_def)
  have rai: "py_call probe_fn [PStr ''x''] [] 0 = (Inl conn_reset, 1)"
    by (simp add: probe_fn_def)
  note m = exc_matches_socket_error
  from wrap_errors_contains [of probe_fn "[PInt 5]" "[]" 0 "PInt 5" 1 "ECls ''socket.error''"]
    ret
  have a: "wrap_errors_call (wrap_errors_init (ECls ''socket.error'') probe_fn) [PInt 5] [] 0
     = (Inr (PInt 5), 1)"
    by blast
  from wrap_errors_contains
    [of probe_fn "[PStr ''x'']" "[]" 0 _ 1 "ECls ''socket.error''" conn_reset] rai m
  have b: "wrap_errors_call (wrap_errors_init (ECls ''socket.error'') probe_fn)
     [PStr ''x''] [] 0 = (Inr (PExc conn_reset), 1)"
    by blast
  from ret rai m a b show ?thesis by blast
qed

text \<open>
  C3. When \<open>f\<close> raises an exception that does not belong to \<open>E\<close>, calling
  \<^verbatim>\<open>wrap_errors(E, f)\<close> raises that same exception: it reaches the caller and is not
  returned as a value.
\<close>

theorem wrap_errors_propagates:
  "py_call f args kw w = (Inl ex, w') \<Longrightarrow> \<not> exc_matches E ex \<Longrightarrow>
     wrap_errors_call (wrap_errors_init E f) args kw w = (Inl ex, w')"
  by (simp add: wrap_errors_call_def wrap_errors_init_def)

theorem wrap_errors_propagates_witness:
  "py_call probe_fn [] [] 0 = (Inl key_error, 1) \<and>
   \<not> exc_matches (ECls ''socket.error'') key_error \<and>
   wrap_errors_call (wrap_errors_init (ECls ''socket.error'') probe_fn) [] [] 0
     = (Inl key_error, 1)"
proof -
  have rai: "py_call probe_fn [] [] 0 = (Inl key_error, 1)"
    by (simp add: probe_fn_def)
  from wrap_errors_propagates [OF rai exc_matches_key_error] rai exc_matches_key_error
  show ?thesis by blast
qed

text \<open>
  C9. The string and the representation of the wrapper are those of the wrapped
  function: \<^verbatim>\<open>str(wrap_errors(E, f)) = str(f)\<close> and
  \<^verbatim>\<open>repr(wrap_errors(E, f)) = repr(f)\<close>.
\<close>

theorem wrap_errors_str_repr:
  "wrap_errors_str (wrap_errors_init E f) = py_str f \<and>
   wrap_errors_repr (wrap_errors_init E f) = py_repr f"
  by (simp add: wrap_errors_str_def wrap_errors_repr_def wrap_errors_init_def)

section \<open>Properties of StreamServer\<close>

lemma load_global_ssl: "load_global ''ssl'' = Inl (name_error ''ssl'')"
  by (simp add: load_global_def module_globals_def py_builtins_def)

lemma load_global_spawn: "load_global ''spawn'' = Inl (name_error ''spawn'')"
  by (simp add: load_global_def module_globals_def py_builtins_def)

lemma StreamServer_init_six:
  "StreamServer_init (''::1'', 8912) (Some log_handle) PNone (PStr ''default'') [] world0
     = (Inr plain_server, emit (EvListen (''::1'', 8912) AF_INET6) world0)"
  by (simp add: StreamServer_init_def eventlet_listen_def world0_def plain_server_def)

lemma StreamServer_init_four:
  "StreamServer_init (''127.0.0.1'', 8912) (Some log_handle) PNone (PStr ''default'') [] world0
     = (Inr plain_server, emit (EvListen (''127.0.0.1'', 8912) AF_INET) world0)"
  by (simp add: StreamServer_init_def eventlet_listen_def world0_def plain_server_def)

text \<open>
  C6. Construction with the default \<^verbatim>\<open>backlog\<close> and \<^verbatim>\<open>spawn\<close> calls \<^verbatim>\<open>eventlet.listen\<close>
  exactly once, for the given address, with the family chosen by the host string:
  \<^verbatim>\<open>AF_INET6\<close> when it contains a colon, the default \<^verbatim>\<open>AF_INET\<close> otherwise. The
  endpoint that call returns becomes the server's listener, and its failure is the
  constructor's failure.
\<close>

theorem StreamServer_init_family:
  assumes "StreamServer_init (host, port) h PNone (PStr ''default'') ssl_args w = (r, w')"
    and "fam = (if CHR '':'' \<in> set host then AF_INET6 else AF_INET)"
  shows "w_log w' = w_log w @ [EvListen (host, port) fam] \<and>
         (\<forall>srv. r = Inr srv \<longrightarrow> w_listen w (host, port) fam = Inr (server srv)) \<and>
         (\<forall>e. r = Inl e \<longrightarrow> w_listen w (host, port) fam = Inl e)"
  using assms
  by (auto simp: StreamServer_init_def eventlet_listen_def emit_def split: sum.splits if_splits)

theorem StreamServer_init_family_witness:
  "StreamServer_init (''::1'', 8912) (Some log_handle) PNone (PStr ''default'') [] world0
     = (Inr plain_server, emit (EvListen (''::1'', 8912) AF_INET6) world0) \<and>
   w_log (emit (EvListen (''::1'', 8912) AF_INET6) world0)
     = w_log world0 @ [EvListen (''::1'', 8912) AF_INET6] \<and>
   w_listen world0 (''::1'', 8912) AF_INET6 = Inr (server plain_server) \<and>
   StreamServer_init (''127.0.0.1'', 8912) (Some log_handle) PNone (PStr ''default'') [] world0
     = (Inr plain_server, emit (EvListen (''127.0.0.1'', 8912) AF_INET) world0) \<and>
   w_log (emit (EvListen (''127.0.0.1'', 8912) AF_INET) world0)
     = w_log world0 @ [EvListen (''127.0.0.1'', 8912) AF_INET] \<and>
   w_listen world0 (''127.0.0.1'', 8912) AF_INET = Inr (server plain_server)"
proof -
  have f6: "AF_INET6 = (if CHR '':'' \<in> set ''::1'' then AF_INET6 else AF_INET)" by simp
  have f4: "AF_INET = (if CHR '':'' \<in> set ''127.0.0.1'' then AF_INET6 else AF_INET)" by simp
  from StreamServer_init_family [OF StreamServer_init_six f6]
    StreamServer_init_family [OF StreamServer_init_four f4]
    StreamServer_init_six StreamServer_init_four
  show ?thesis by simp
qed

text \<open>
  C10. Construction requires \<^verbatim>\<open>backlog\<close> to be \<^verbatim>\<open>None\<close> and \<^verbatim>\<open>spawn\<close> to be the string
  \<^verbatim>\<open>'default'\<close>: with any other value of either, it fails with AssertionError and the
  world is as before, so \<^verbatim>\<open>eventlet.listen\<close> has not been called and no endpoint is
  bound.
\<close>

theorem StreamServer_init_asserts:
  "backlog \<noteq> PNone \<or> spawn \<noteq> PStr ''default'' \<Longrightarrow>
     StreamServer_init listen_info h backlog spawn ssl_args w = (Inl assertion_error, w)"
  by (auto simp: StreamServer_init_def)

theorem StreamServer_init_asserts_witness:
  "PInt 128 \<noteq> PNone \<and>
   StreamServer_init (''127.0.0.1'', 8912) (Some log_handle) (PInt 128) (PStr ''default'') []
     world0 = (Inl assertion_error, world0) \<and>
   PObj 1 \<noteq> PStr ''default'' \<and>
   StreamServer_init (''127.0.0.1'', 8912) (Some log_handle) PNone (PObj 1) [] world0
     = (Inl assertion_error, world0)"
proof -
  have a: "PInt 128 \<noteq> PNone \<or> PStr ''default'' \<noteq> PStr ''default''" by simp
  have b: "PNone \<noteq> PNone \<or> PObj 1 \<noteq> PStr ''default''" by simp
  from StreamServer_init_asserts [OF a] StreamServer_init_asserts [OF b]
  show ?thesis by simp
qed

text \<open>
  Without transport-security arguments the attribute \<^verbatim>\<open>self.handle\<close> is the \<^verbatim>\<open>handle\<close>
  argument itself, called with the raw socket.
\<close>

lemma StreamServer_init_direct:
  "StreamServer_init listen_info h backlog spawn [] w = (Inr srv, w') \<Longrightarrow>
     handle srv = Direct h \<and> fst (call_self_handle (handle srv) s a w2)
       = (fst (call_handle h s a w2), Direct h)"
  by (auto simp: StreamServer_init_def split: if_splits sum.splits prod.splits)

text \<open>
  C5. With transport-security arguments (here \<^verbatim>\<open>certfile='server.pem'\<close>) the attribute
  \<^verbatim>\<open>self.handle\<close> is the closure \<^verbatim>\<open>wrap_and_handle\<close>. Called with an accepted socket, it
  adds \<^verbatim>\<open>server_side\<close> to the arguments and then raises NameError for the name
  \<^verbatim>\<open>ssl\<close>, which the module never imports: the socket is not wrapped and the \<^verbatim>\<open>handle\<close>
  argument is not called (the world is unchanged).
\<close>

theorem wrap_and_handle_name_error:
  "StreamServer_init (''127.0.0.1'', 8912) (Some log_handle) PNone (PStr ''default'') tls_args
     world0 = (Inr tls_server, emit (EvListen (''127.0.0.1'', 8912) AF_INET) world0) \<and>
   call_self_handle (handle tls_server) 7 (''10.0.0.2'', 50000) world0
     = ((Inl (name_error ''ssl''),
         WrapAndHandle (tls_args @ [(''server_side'', PBool True)]) (Some log_handle)),
        world0)"
  by (simp add: StreamServer_init_def eventlet_listen_def world0_def tls_server_def
      tls_args_def wrap_and_handle_def load_global_ssl setdefault_def)

text \<open>
  Whenever \<^verbatim>\<open>accept\<close> returns a connection, the first iteration of \<^verbatim>\<open>serve_forever\<close> ends
  the loop with NameError for the name \<^verbatim>\<open>spawn\<close>.
\<close>

lemma serve_forever_name_error:
  "w_accept w (w_accepted w) = Inr c \<Longrightarrow>
     serve_forever (Suc n) self w
       = Some (name_error ''spawn'',
               emit (EvAccept (server self)) (w\<lparr>w_accepted := Suc (w_accepted w)\<rparr>))"
  by (cases c) (simp add: socket_accept_def load_global_spawn)

text \<open>
  C4. On a listener to which one client connects, \<^verbatim>\<open>serve_forever\<close> accepts the
  connection and then leaves its loop with NameError for the name \<^verbatim>\<open>spawn\<close>, for any
  positive number of iterations allowed: no handler is spawned (the log holds the accept
  only) and the accept loop is over.
\<close>

theorem serve_forever_first_connection:
  "serve_forever (Suc n) plain_server world0
     = Some (name_error ''spawn'', world0\<lparr>w_accepted := 1, w_log := [EvAccept 3]\<rparr>)"
  by (simp add: socket_accept_def load_global_spawn world0_def plain_server_def emit_def)

section \<open>Properties of the disconnection watcher\<close>

text \<open>
  C7. \<^verbatim>\<open>_start_watching(sock)\<close> spawns a green thread that calls \<^verbatim>\<open>sock.recv(1)\<close> through
  \<^verbatim>\<open>wrap_errors(socket.error, ...)\<close>. When that green thread runs, each of the three ways
  the probe can complete ends with one call of \<^verbatim>\<open>self.disconnected(sock)\<close>: no bytes
  (the peer closed), a socket error (returned as a value), or a byte of data.
\<close>

theorem start_watching_disconnects:
  "gt_args (start_watching s) = [PInt 1] \<and>
   errors (gt_func (start_watching s)) = ECls ''socket.error'' \<and>
   (w_recv w s = Inr [] \<longrightarrow>
      gt_main (start_watching s) w
        = (Inr (PStr []), emit (EvDisconnected s) (emit (EvRecv s 1) w))) \<and>
   (w_recv w s = Inl e \<and> ''socket.error'' \<in> set (exc_mro e) \<longrightarrow>
      gt_main (start_watching s) w
        = (Inr (PExc e), emit (EvDisconnected s) (emit (EvRecv s 1) w))) \<and>
   (w_recv w s = Inr (c # cs) \<longrightarrow>
      gt_main (start_watching s) w
        = (Inr (PStr [c]), emit (EvDisconnected s) (emit (EvRecv s 1) w)))"
  by (simp add: start_watching_def gt_link_def eventlet_spawn_def gt_main_def
      wrap_errors_call_def wrap_errors_init_def sock_recv_def)

theorem start_watching_disconnects_witness:
  "w_recv world1 9 = Inr [] \<and>
   gt_main (start_watching 9) world1
     = (Inr (PStr []), emit (EvDisconnected 9) (emit (EvRecv 9 1) world1)) \<and>
   w_recv world1 7 = Inl conn_reset \<and> ''socket.error'' \<in> set (exc_mro conn_reset) \<and>
   gt_main (start_watching 7) world1
     = (Inr (PExc conn_reset), emit (EvDisconnected 7) (emit (EvRecv 7 1) world1)) \<and>
   w_recv world1 8 = Inr ''GET'' \<and>
   gt_main (start_watching 8) world1
     = (Inr (PStr ''G''), emit (EvDisconnected 8) (emit (EvRecv 8 1) world1))"
proof -
  have closed: "w_recv world1 9 = Inr []"
    by (simp add: world1_def world0_def)
  have reset: "w_recv world1 7 = Inl conn_reset \<and> ''socket.error'' \<in> set (exc_mro conn_reset)"
    by (simp add: world1_def world0_def conn_reset_def socket_error_mro_def)
  have data: "w_recv world1 8 = Inr (CHR ''G'' # ''ET'')"
    by (simp add: world1_def world0_def)
  from start_watching_disconnects [of 9 world1] closed
  have a: "gt_main (start_watching 9) world1
     = (Inr (PStr []), emit (EvDisconnected 9) (emit (EvRecv 9 1) world1))"
    by blast
  from start_watching_disconnects [of 7 world1 conn_reset] reset
  have b: "gt_main (start_watching 7) world1
     = (Inr (PExc conn_reset), emit (EvDisconnected 7) (emit (EvRecv 7 1) world1))"
    by blast
  from start_watching_disconnects [of 8 world1 _ "CHR ''G''" "''ET''"] data
  have c: "gt_main (start_watching 8) world1
     = (Inr (PStr ''G''), emit (EvDisconnected 8) (emit (EvRecv 8 1) world1))"
    by blast
  from closed reset data a b c show ?thesis by simp
qed

section \<open>Properties of sampling sessions\<close>

lemma sem_acquire_counter:
  "sem_acquire l = Some l' \<Longrightarrow> 0 < counter l \<and> Suc (counter l') = counter l"
  by (auto simp: sem_acquire_def split: if_splits)

lemma session_step_balance:
  assumes "session_step b l p = Some (l', p')"
  shows "counter l' + (if in_loop p' then 1 else 0) = counter l + (if in_loop p then 1 else 0)"
proof (cases p)
  case Entering
  with assms obtain l1 where "sem_acquire l = Some l1" and "l' = l1" and "p' = AtNext 0"
    by (auto split: option.splits)
  with Entering show ?thesis by (auto dest: sem_acquire_counter)
next
  case (AtNext k)
  with assms show ?thesis by (auto simp: sem_release_def split: gen_out.splits)
next
  case (Sleeping k)
  with assms show ?thesis by (auto simp: sem_release_def split: option.splits)
next
  case (Exited r)
  with assms show ?thesis by simp
qed

lemma filter_length_update:
  "i < length xs \<Longrightarrow>
     length (filter P (xs[i := y])) + (if P (xs ! i) then 1 else 0)
       = length (filter P xs) + (if P y then 1 else 0)"
proof (induction xs arbitrary: i)
  case Nil
  then show ?case by simp
next
  case (Cons x xs)
  show ?case
  proof (cases i)
    case 0
    then show ?thesis by simp
  next
    case (Suc k)
    with Cons.prems have "k < length xs" by simp
    from Cons.IH [OF this] Suc show ?thesis by simp
  qed
qed

lemma filter_length_two:
  assumes "i < length xs" and "j < length xs" and "i \<noteq> j" and "P (xs ! i)" and "P (xs ! j)"
  shows "2 \<le> length (filter P xs)"
proof -
  let ?S = "{k. k < length xs \<and> P (xs ! k)}"
  have fin: "finite ?S" by simp
  from assms have sub: "{i, j} \<subseteq> ?S" by simp
  from assms(3) have "card {i, j} = 2" by simp
  with card_mono [OF fin sub] have "2 \<le> card ?S" by simp
  then show ?thesis by (simp add: length_filter_conv_card)
qed

lemma eps_step_balance:
  "counter (lock (eps_step s e)) + active_sessions (eps_step s e)
     = counter (lock s) + active_sessions s"
proof (cases e)
  case (StartProfiling b)
  then show ?thesis by (simp add: start_profiling_def active_sessions_def)
next
  case (Resume i)
  show ?thesis
  proof (cases "i < length (sessions s)")
    case False
    with Resume show ?thesis by simp
  next
    case True
    obtain b p where bp: "sessions s ! i = (b, p)" by (cases "sessions s ! i")
    show ?thesis
    proof (cases "session_step b (lock s) p")
      case None
      with Resume True bp show ?thesis by simp
    next
      case (Some lp)
      obtain l' p' where lp: "lp = (l', p')" by (cases lp)
      from Some lp have st: "session_step b (lock s) p = Some (l', p')" by simp
      from filter_length_update [OF True, of "\<lambda>x. in_loop (snd x)" "(b, p')"] bp
      have "length (filter (\<lambda>x. in_loop (snd x)) ((sessions s)[i := (b, p')]))
              + (if in_loop p then 1 else 0)
            = length (filter (\<lambda>x. in_loop (snd x)) (sessions s)) + (if in_loop p' then 1 else 0)"
        by simp
      with session_step_balance [OF st] Resume True bp st
      show ?thesis by (simp add: active_sessions_def split: if_splits)
    qed
  qed
qed

lemma eps_run_balance:
  "counter (lock (eps_run s es)) + active_sessions (eps_run s es)
     = counter (lock s) + active_sessions s"
  by (induction es arbitrary: s) (simp_all add: eps_step_balance)

lemma EventletProfilingServer_init_balance:
  "EventletProfilingServer_init listener h backlog spawn ssl_args w = (Inr srv, w') \<Longrightarrow>
     counter (lock srv) + active_sessions srv = 1"
  by (auto simp: EventletProfilingServer_init_def Semaphore_def active_sessions_def
      split: prod.splits sum.splits)

text \<open>
  C1. From a freshly constructed server and along every schedule of session starts and
  resumptions, at most one session is in the loop of \<^verbatim>\<open>profile_periodically\<close>: two
  sessions in the loop are the same session, and while one is in the loop the semaphore
  is exhausted, so a session at the \<^verbatim>\<open>with\<close> statement cannot enter.
\<close>

theorem single_sampling_session:
  assumes init: "EventletProfilingServer_init listener h backlog spawn ssl_args w = (Inr srv, w')"
    and run: "s = eps_run srv es"
  shows "active_sessions s \<le> 1 \<and>
         (\<forall>i j. i < length (sessions s) \<and> j < length (sessions s) \<and>
                in_loop (snd (sessions s ! i)) \<and> in_loop (snd (sessions s ! j)) \<longrightarrow> i = j) \<and>
         (\<forall>i b. i < length (sessions s) \<and> in_loop (snd (sessions s ! i)) \<longrightarrow>
                session_step b (lock s) Entering = None)"
proof -
  from EventletProfilingServer_init_balance [OF init] eps_run_balance [of srv es] run
  have bal: "counter (lock s) + active_sessions s = 1" by simp
  then have one: "active_sessions s \<le> 1" by simp
  have uniq: "i = j"
    if "i < length (sessions s)" "j < length (sessions s)"
      "in_loop (snd (sessions s ! i))" "in_loop (snd (sessions s ! j))" for i j
  proof (rule ccontr)
    assume "i \<noteq> j"
    with that have "2 \<le> length (filter (\<lambda>x. in_loop (snd x)) (sessions s))"
      by (intro filter_length_two [of i _ j]) simp_all
    with one show False by (simp add: active_sessions_def)
  qed
  have blocked: "session_step b (lock s) Entering = None"
    if "i < length (sessions s)" "in_loop (snd (sessions s ! i))" for i b
  proof -
    from that have "sessions s ! i \<in> set (filter (\<lambda>x. in_loop (snd x)) (sessions s))"
      by simp
    then have "0 < active_sessions s"
      by (auto simp: active_sessions_def filter_empty_conv)
    with bal have "counter (lock s) = 0" by simp
    then show ?thesis by (simp add: sem_acquire_def)
  qed
  from one uniq blocked show ?thesis by blast
qed

lemma EventletProfilingServer_init_eps0:
  "EventletProfilingServer_init (''127.0.0.1'', 8912) (Some log_handle) PNone (PStr ''default'')
     [] world0 = (Inr eps0, emit (EvListen (''127.0.0.1'', 8912) AF_INET) world0)"
  by (simp add: EventletProfilingServer_init_def StreamServer_init_four eps0_def)

lemma eps_run_contended:
  "eps_run eps0 contended
     = \<lparr>stream = plain_server, lock = \<lparr>counter = 0\<rparr>,
        sessions = [(endless, Sleeping 0), (two_samples, Entering)]\<rparr>"
  by (simp add: contended_def eps0_def start_profiling_def Semaphore_def sem_acquire_def
      endless_def two_samples_def)

theorem single_sampling_session_witness:
  "EventletProfilingServer_init (''127.0.0.1'', 8912) (Some log_handle) PNone (PStr ''default'')
     [] world0 = (Inr eps0, emit (EvListen (''127.0.0.1'', 8912) AF_INET) world0) \<and>
   eps_run eps0 contended
     = \<lparr>stream = plain_server, lock = \<lparr>counter = 0\<rparr>,
        sessions = [(endless, Sleeping 0), (two_samples, Entering)]\<rparr> \<and>
   active_sessions (eps_run eps0 contended) \<le> 1 \<and>
   in_loop (snd (sessions (eps_run eps0 contended) ! 0)) \<and>
   session_step two_samples (lock (eps_run eps0 contended)) Entering = None"
proof -
  note all = single_sampling_session [OF EventletProfilingServer_init_eps0 refl, of contended]
  from all have one: "active_sessions (eps_run eps0 contended) \<le> 1"
    by (rule conjunct1)
  have len: "0 < length (sessions (eps_run eps0 contended))"
    and loop: "in_loop (snd (sessions (eps_run eps0 contended) ! 0))"
    by (simp_all add: eps_run_contended)
  from all len loop
  have blocked: "session_step two_samples (lock (eps_run eps0 contended)) Entering = None"
    by blast
  from EventletProfilingServer_init_eps0 eps_run_contended one loop blocked
  show ?thesis by blast
qed

lemma session_run_counter:
  "session_run n b l p = Some (r, l') \<Longrightarrow>
     counter l' = counter l + (if in_loop p then 1 else 0)"
proof (induction n arbitrary: l p)
  case 0
  then show ?case by (cases p) simp_all
next
  case (Suc n)
  show ?case
  proof (cases p)
    case (Exited r0)
    with Suc.prems show ?thesis by simp
  next
    case Entering
    with Suc.prems obtain l1 p1 where st: "session_step b l p = Some (l1, p1)"
      and rest: "session_run n b l1 p1 = Some (r, l')"
      by (auto split: option.splits)
    from Suc.IH [OF rest] session_step_balance [OF st] show ?thesis by simp
  next
    case (AtNext k)
    with Suc.prems obtain l1 p1 where st: "session_step b l p = Some (l1, p1)"
      and rest: "session_run n b l1 p1 = Some (r, l')"
      by (auto split: option.splits)
    from Suc.IH [OF rest] session_step_balance [OF st] show ?thesis by simp
  next
    case (Sleeping k)
    with Suc.prems obtain l1 p1 where st: "session_step b l p = Some (l1, p1)"
      and rest: "session_run n b l1 p1 = Some (r, l')"
      by (auto split: option.splits)
    from Suc.IH [OF rest] session_step_balance [OF st] show ?thesis by simp
  qed
qed

lemma profile_periodically_acquires:
  "profile_periodically n b l = Some (r, l') \<Longrightarrow> 0 < counter l"
  by (cases n) (auto simp: profile_periodically_def sem_acquire_def split: option.splits if_splits)

lemma session_step_exit_releases:
  "session_step b l p = Some (l1, Exited r) \<Longrightarrow> in_loop p \<and> l1 = sem_release l"
  by (cases p) (auto split: option.splits gen_out.splits)

text \<open>
  C8. When \<^verbatim>\<open>profile_periodically\<close> is over, whether it returned (\<open>r = None\<close>) or was left
  by an exception (\<open>r = Some e\<close>), the semaphore is as it was before the call and can be
  acquired again; and the step that ends a session is a step of a session in its loop
  that releases the semaphore.
\<close>

theorem profile_periodically_releases:
  "(profile_periodically n b l = Some (r, l') \<longrightarrow> l' = l \<and> sem_acquire l' \<noteq> None) \<and>
   (session_step c m p = Some (m', Exited q) \<longrightarrow> in_loop p \<and> m' = sem_release m)"
proof -
  have "l' = l \<and> sem_acquire l' \<noteq> None" if run: "profile_periodically n b l = Some (r, l')"
  proof -
    from run have "counter l' = counter l"
      by (auto simp: profile_periodically_def dest: session_run_counter)
    moreover from run have "0 < counter l" by (rule profile_periodically_acquires)
    ultimately show ?thesis by (simp add: sem_acquire_def)
  qed
  with session_step_exit_releases [of c m p m' q] show ?thesis by blast
qed

lemma profile_periodically_failing:
  "profile_periodically 4 failing_sampler (Semaphore None)
     = Some (Some profiler_gone, Semaphore None)"
  by (simp add: profile_periodically_def eval_nat_numeral failing_sampler_def Semaphore_def
      sem_acquire_def sem_release_def)

lemma profile_periodically_two_samples:
  "profile_periodically 6 two_samples (Semaphore None) = Some (None, Semaphore None)"
  by (simp add: profile_periodically_def eval_nat_numeral two_samples_def Semaphore_def
      sem_acquire_def sem_release_def)

theorem profile_periodically_releases_witness:
  "profile_periodically 4 failing_sampler (Semaphore None)
     = Some (Some profiler_gone, Semaphore None) \<and>
   profile_periodically 6 two_samples (Semaphore None) = Some (None, Semaphore None) \<and>
   sem_acquire (Semaphore None) \<noteq> None \<and>
   session_step failing_sampler \<lparr>counter = 0\<rparr> (AtNext 1)
     = Some (\<lparr>counter = 1\<rparr>, Exited (Some profiler_gone)) \<and>
   in_loop (AtNext 1) \<and> \<lparr>counter = 1\<rparr> = sem_release \<lparr>counter = 0\<rparr>"
proof -
  have st: "session_step failing_sampler \<lparr>counter = 0\<rparr> (AtNext 1)
     = Some (\<lparr>counter = 1\<rparr>, Exited (Some profiler_gone))"
    by (simp add: failing_sampler_def sem_release_def)
  from profile_periodically_releases
    [where n = 4 and b = failing_sampler and l = "Semaphore None" and r = "Some profiler_gone"
       and l' = "Semaphore None" and c = failing_sampler and m = "\<lparr>counter = 0\<rparr>"
       and p = "AtNext 1" and m' = "\<lparr>counter = 1\<rparr>" and q = "Some profiler_gone"]
    profile_periodically_failing st
  have "sem_acquire (Semaphore None) \<noteq> None \<and> in_loop (AtNext 1) \<and>
        \<lparr>counter = 1\<rparr> = sem_release \<lparr>counter = 0\<rparr>"
    by blast
  with profile_periodically_failing profile_periodically_two_samples st
  show ?thesis by blast
qed

text \<open>
  A session whose generator stops or raises at item \<open>k\<close>, or whose \<open>k\<close>-th sleep raises,
  is over after at most \<open>2 * k + 3\<close> steps when the semaphore is free at its start.
\<close>

lemma session_run_more:
  "session_run n b l p = Some x \<Longrightarrow> session_run (n + m) b l p = Some x"
proof (induction n arbitrary: l p)
  case 0
  then show ?case by (cases p) simp_all
next
  case (Suc n)
  then show ?case by (cases p) (auto split: option.splits)
qed

lemma session_run_returns:
  "gen_next b (j + d) \<noteq> GYield \<or> sleep_res b (j + d) \<noteq> None \<Longrightarrow>
     \<exists>x. session_run (Suc (Suc (2 * d))) b l (AtNext j) = Some x"
proof (induction d arbitrary: j l)
  case 0
  then show ?case
    by (cases "gen_next b j"; cases "sleep_res b j") auto
next
  case (Suc d)
  show ?case
  proof (cases "gen_next b j = GYield \<and> sleep_res b j = None")
    case True
    from Suc.prems have "gen_next b (Suc j + d) \<noteq> GYield \<or> sleep_res b (Suc j + d) \<noteq> None"
      by simp
    from Suc.IH [OF this, of l] True show ?thesis by simp
  next
    case False
    then have "\<exists>x. session_run (Suc (Suc 0)) b l (AtNext j) = Some x"
      by (cases "gen_next b j"; cases "sleep_res b j") auto
    then obtain x where "session_run (Suc (Suc 0)) b l (AtNext j) = Some x" ..
    from session_run_more [OF this, of "2 * Suc d"] show ?thesis by simp
  qed
qed

lemma profile_periodically_returns:
  assumes "gen_next b k \<noteq> GYield \<or> sleep_res b k \<noteq> None" and "0 < counter l"
  shows "\<exists>r. profile_periodically (2 * k + 3) b l = Some (r, l)"
proof -
  from assms(2) obtain l1 where acq: "sem_acquire l = Some l1"
    by (auto simp: sem_acquire_def)
  from assms(1) have "gen_next b (0 + k) \<noteq> GYield \<or> sleep_res b (0 + k) \<noteq> None" by simp
  from session_run_returns [OF this, of l1] obtain x
    where x: "session_run (Suc (Suc (2 * k))) b l1 (AtNext 0) = Some x" by auto
  have fuel: "2 * k + 3 = Suc (Suc (Suc (2 * k)))" by simp
  from acq x have run: "profile_periodically (2 * k + 3) b l = Some x"
    unfolding fuel profile_periodically_def by simp
  obtain r l' where xr: "x = (r, l')" by (cases x)
  with run have "counter l' = counter l"
    by (auto simp: profile_periodically_def dest: session_run_counter)
  then have "l' = l" by simp
  with run xr show ?thesis by auto
qed

end
